theory Spec2Isabelle
  imports Main
begin

section \<open>Values, objects and the heap\<close>

text \<open>
  The two source files, \<^verbatim>\<open>src/bound/base.ts\<close> and \<^verbatim>\<open>src/bound/simple.ts\<close>, mutate
  JavaScript objects that are shared by reference (\<^verbatim>\<open>boundObject\<close>, \<^verbatim>\<open>storage\<close>, the
  mirror targets of a Binding), so the model keeps an explicit heap: a list of cells,
  an address being an index into it. Values are the plain data a prototype snapshot can
  hold, plus references. Functions, symbols, arrays, getters and prototype chains are
  outside the value universe; numbers are integers.
\<close>

type_synonym addr = nat

datatype val = Undefined | Null | Bool bool | Num int | Str string | Ref addr

datatype error = BoundError string | TypeError string | SyntaxError string | RangeError string

text \<open>A data property with its three attributes, as \<^verbatim>\<open>Object.getOwnPropertyDescriptor\<close> shows it.\<close>

record property =
  p_value :: val
  p_writable :: bool
  p_enumerable :: bool
  p_configurable :: bool

text \<open>The descriptor argument of \<^verbatim>\<open>Object.defineProperty\<close>: every field may be absent.\<close>

record descriptor =
  d_value :: "val option"
  d_writable :: "bool option"
  d_enumerable :: "bool option"
  d_configurable :: "bool option"

text \<open>
  Modelled from the spec: the class \<^verbatim>\<open>Binding\<close> of \<^verbatim>\<open>src/binding\<close>, which both source
  files import and which is not among the sources. Section 3 of the specification gives
  its state: the current value, the ordered collection of master bindings (pairs of a
  target object reference and a key name) and the two-way flag.
\<close>

record binding =
  b_twoWay :: bool
  b_value :: val
  b_masters :: "(val \<times> string) list"

text \<open>
  An object is a class tag and its own properties in insertion order.
  \<open>BaseBoundInstance\<close> tags every object for which \<^verbatim>\<open>instanceof BaseBound\<close> holds.
\<close>

datatype cls = PlainObject | BaseBoundInstance

datatype cell = ObjCell cls "(string \<times> property) list" | BindingCell binding

type_synonym heap = "cell list"

text \<open>The \<^verbatim>\<open>config\<close> module is not among the sources; it is a parameter of every operation.\<close>

record config =
  debug :: bool

definition lookup :: "heap \<Rightarrow> addr \<Rightarrow> cell option" where
  "lookup h a = (if a < length h then Some (h ! a) else None)"

definition alloc :: "heap \<Rightarrow> cell \<Rightarrow> addr \<times> heap" where
  "alloc h c = (length h, h @ [c])"

definition data_prop :: "val \<Rightarrow> property" where
  "data_prop v = \<lparr>p_value = v, p_writable = True, p_enumerable = True, p_configurable = True\<rparr>"

fun put :: "string \<Rightarrow> property \<Rightarrow> (string \<times> property) list \<Rightarrow> (string \<times> property) list" where
  "put k p [] = [(k, p)]"
| "put k p ((k', p') # ps) = (if k = k' then (k, p) # ps else (k', p') # put k p ps)"

fun typeof :: "val \<Rightarrow> string" where
  "typeof Undefined = ''undefined''"
| "typeof Null = ''object''"
| "typeof (Bool b) = ''boolean''"
| "typeof (Num n) = ''number''"
| "typeof (Str s) = ''string''"
| "typeof (Ref a) = ''object''"

fun truthy :: "val \<Rightarrow> bool" where
  "truthy Undefined = False"
| "truthy Null = False"
| "truthy (Bool b) = b"
| "truthy (Num n) = (n \<noteq> 0)"
| "truthy (Str s) = (s \<noteq> [])"
| "truthy (Ref a) = True"

text \<open>
  Reading \<^verbatim>\<open>v[k]\<close>. It throws on \<^verbatim>\<open>undefined\<close> and \<^verbatim>\<open>null\<close>; on another primitive, and on
  a Binding (whose own fields are not in the sources), it gives \<^verbatim>\<open>undefined\<close>.
\<close>

definition get_prop :: "heap \<Rightarrow> val \<Rightarrow> string \<Rightarrow> error + val" where
  "get_prop h v k =
     (case v of
        Undefined \<Rightarrow> Inl (TypeError ''Cannot read properties of undefined'')
      | Null \<Rightarrow> Inl (TypeError ''Cannot read properties of null'')
      | Ref a \<Rightarrow>
          (case lookup h a of
             Some (ObjCell c ps) \<Rightarrow>
               (case map_of ps k of None \<Rightarrow> Inr Undefined | Some p \<Rightarrow> Inr (p_value p))
           | _ \<Rightarrow> Inr Undefined)
      | _ \<Rightarrow> Inr Undefined)"

text \<open>
  The assignment \<^verbatim>\<open>v[k] = x\<close> in strict-mode code (class bodies are strict): it throws
  on \<^verbatim>\<open>undefined\<close>, \<^verbatim>\<open>null\<close>, another primitive and a read-only property; an existing
  property keeps its place and its attributes, a new one goes last with all three
  attributes set. A Binding is not a writable target.
\<close>

definition set_prop :: "heap \<Rightarrow> val \<Rightarrow> string \<Rightarrow> val \<Rightarrow> (error + unit) \<times> heap" where
  "set_prop h v k x =
     (case v of
        Undefined \<Rightarrow> (Inl (TypeError ''Cannot set properties of undefined''), h)
      | Null \<Rightarrow> (Inl (TypeError ''Cannot set properties of null''), h)
      | Ref a \<Rightarrow>
          (case lookup h a of
             Some (ObjCell c ps) \<Rightarrow>
               (case map_of ps k of
                  None \<Rightarrow> (Inr (), h[a := ObjCell c (put k (data_prop x) ps)])
                | Some p \<Rightarrow>
                    if p_writable p
                    then (Inr (), h[a := ObjCell c (put k (p\<lparr>p_value := x\<rparr>) ps)])
                    else (Inl (TypeError ''Cannot assign to read only property''), h))
           | _ \<Rightarrow> (Inl (TypeError ''Cannot create property''), h))
      | _ \<Rightarrow> (Inl (TypeError ''Cannot create property''), h))"

text \<open>
  \<^verbatim>\<open>Object.defineProperty(v, k, d)\<close>. A new property takes \<^verbatim>\<open>false\<close> and
  \<^verbatim>\<open>undefined\<close> for the absent fields of the descriptor; an existing property keeps
  its own attribute wherever the descriptor is silent.
\<close>

definition redefine :: "property \<Rightarrow> descriptor \<Rightarrow> property" where
  "redefine p d =
     \<lparr>p_value = (case d_value d of None \<Rightarrow> p_value p | Some x \<Rightarrow> x),
      p_writable = (case d_writable d of None \<Rightarrow> p_writable p | Some b \<Rightarrow> b),
      p_enumerable = (case d_enumerable d of None \<Rightarrow> p_enumerable p | Some b \<Rightarrow> b),
      p_configurable = (case d_configurable d of None \<Rightarrow> p_configurable p | Some b \<Rightarrow> b)\<rparr>"

definition absent_prop :: property where
  "absent_prop =
     \<lparr>p_value = Undefined, p_writable = False, p_enumerable = False, p_configurable = False\<rparr>"

definition redefinable :: "property \<Rightarrow> descriptor \<Rightarrow> bool" where
  "redefinable p d =
     (p_configurable p \<or>
      (d_configurable d \<noteq> Some True \<and>
       (d_enumerable d = None \<or> d_enumerable d = Some (p_enumerable p)) \<and>
       (p_writable p \<or>
        (d_writable d \<noteq> Some True \<and> (d_value d = None \<or> d_value d = Some (p_value p))))))"

definition defineProperty :: "heap \<Rightarrow> val \<Rightarrow> string \<Rightarrow> descriptor \<Rightarrow> (error + unit) \<times> heap" where
  "defineProperty h v k d =
     (case v of
        Ref a \<Rightarrow>
          (case lookup h a of
             Some (ObjCell c ps) \<Rightarrow>
               (case map_of ps k of
                  None \<Rightarrow> (Inr (), h[a := ObjCell c (put k (redefine absent_prop d) ps)])
                | Some p \<Rightarrow>
                    if redefinable p d
                    then (Inr (), h[a := ObjCell c (put k (redefine p d) ps)])
                    else (Inl (TypeError ''Cannot redefine property''), h))
           | _ \<Rightarrow> (Inl (TypeError ''Object.defineProperty called on non-object''), h))
      | _ \<Rightarrow> (Inl (TypeError ''Object.defineProperty called on non-object''), h))"

text \<open>
  The order in which JavaScript enumerates the own properties of an object: the keys
  that are array indices (canonical decimal numerals below \<open>2\<^sup>3\<^sup>2 - 1\<close>) first, in
  ascending numeric order, then the other string keys in insertion order.
\<close>

definition index_val :: "string \<Rightarrow> nat" where
  "index_val k = foldl (\<lambda>n c. 10 * n + (of_char c - 48)) 0 k"

definition is_array_index :: "string \<Rightarrow> bool" where
  "is_array_index k =
     (k \<noteq> [] \<and> list_all (\<lambda>c. c \<in> set ''0123456789'') k \<and>
      (if hd k = CHR ''0'' then length k = 1 else True) \<and>
      index_val k < 4294967295)"

definition prop_order :: "(string \<times> 'a) list \<Rightarrow> (string \<times> 'a) list" where
  "prop_order ps =
     sort_key (\<lambda>kp. index_val (fst kp)) (filter (\<lambda>kp. is_array_index (fst kp)) ps) @
     filter (\<lambda>kp. \<not> is_array_index (fst kp)) ps"

text \<open>The keys \<^verbatim>\<open>for (const key in v)\<close> visits: the enumerable own keys, in that order.\<close>

definition for_in_keys :: "heap \<Rightarrow> val \<Rightarrow> string list" where
  "for_in_keys h v =
     (case v of
        Ref a \<Rightarrow>
          (case lookup h a of
             Some (ObjCell c ps) \<Rightarrow>
               map fst (prop_order (filter (\<lambda>kp. p_enumerable (snd kp)) ps))
           | _ \<Rightarrow> [])
      | _ \<Rightarrow> [])"

section \<open>BaseBound (src/bound/base.ts)\<close>

text \<open>The messages of the three \<^verbatim>\<open>BoundError\<close>s that \<^verbatim>\<open>base.ts\<close> throws.\<close>

definition only_objects_message :: string where
  "only_objects_message =
     ''Only object binds are allowed. For property and pure value bindings use Binding from \"bound/binding\".''"

definition rebind_message :: string where
  "rebind_message = ''Cannot rebind a bound object.''"

definition not_implemented_message :: string where
  "not_implemented_message = ''Method not implemented.''"

definition instanceof_BaseBound :: "heap \<Rightarrow> val \<Rightarrow> bool" where
  "instanceof_BaseBound h v =
     (case v of
        Ref a \<Rightarrow> (case lookup h a of Some (ObjCell BaseBoundInstance ps) \<Rightarrow> True | _ \<Rightarrow> False)
      | _ \<Rightarrow> False)"

text \<open>
  \<^verbatim>\<open>static isBound(obj) { return !!obj.__bound__ && (obj.__bound__ instanceof BaseBound); }\<close>
\<close>

definition isBound :: "heap \<Rightarrow> val \<Rightarrow> error + bool" where
  "isBound h obj =
     (case get_prop h obj ''__bound__'' of
        Inl e \<Rightarrow> Inl e
      | Inr b \<Rightarrow> Inr (truthy b \<and> instanceof_BaseBound h b))"

text \<open>
  The constructor of \<^verbatim>\<open>BaseBound\<close>, with what runs before its body: the object is
  allocated, the parameter property \<^verbatim>\<open>plugins\<close> is assigned, and the field initialisers
  give \<^verbatim>\<open>storage = {}\<close> and \<^verbatim>\<open>boundObject = { __bound__: this }\<close>. The body then calls
  \<^verbatim>\<open>Object.defineProperty(this.boundObject, '__bound__', { value: this, writable: true })\<close>
  and makes its two checks; in the second, \<^verbatim>\<open>&&\<close> binds tighter than \<^verbatim>\<open>||\<close>. The
  three assignments to the fresh instance cannot throw, so only their heaps are kept.
\<close>

definition BaseBound_ctor :: "config \<Rightarrow> heap \<Rightarrow> val \<Rightarrow> val \<Rightarrow> (error + addr) \<times> heap" where
  "BaseBound_ctor cfg h proto plugins =
     (let (this, h1) = alloc h (ObjCell BaseBoundInstance []);
          h2 = snd (set_prop h1 (Ref this) ''plugins'' plugins);
          (st, h3) = alloc h2 (ObjCell PlainObject []);
          h4 = snd (set_prop h3 (Ref this) ''storage'' (Ref st));
          (bo, h5) = alloc h4 (ObjCell PlainObject [(''__bound__'', data_prop (Ref this))]);
          h6 = snd (set_prop h5 (Ref this) ''boundObject'' (Ref bo))
      in case get_prop h6 (Ref this) ''boundObject'' of
           Inl e \<Rightarrow> (Inl e, h6)
         | Inr b \<Rightarrow>
             (case defineProperty h6 b ''__bound__''
                     \<lparr>d_value = Some (Ref this), d_writable = Some True,
                      d_enumerable = None, d_configurable = None\<rparr> of
                (Inl e, h7) \<Rightarrow> (Inl e, h7)
              | (Inr u, h7) \<Rightarrow>
                  if debug cfg \<and> typeof proto \<noteq> ''object''
                  then (Inl (BoundError only_objects_message), h7)
                  else
                    (case (if debug cfg \<and> instanceof_BaseBound h7 proto then Inr True
                           else isBound h7 proto) of
                       Inl e \<Rightarrow> (Inl e, h7)
                     | Inr True \<Rightarrow> (Inl (BoundError rebind_message), h7)
                     | Inr False \<Rightarrow> (Inr this, h7))))"

text \<open>
  \<^verbatim>\<open>bindAndMap(obj, mapToOriginal, twoWay) { throw new BoundError('Method not implemented.'); }\<close>
\<close>

definition bindAndMap ::
  "config \<Rightarrow> heap \<Rightarrow> addr \<Rightarrow> val \<Rightarrow> val \<Rightarrow> val \<Rightarrow> (error + addr) \<times> heap" where
  "bindAndMap cfg h this obj mapToOriginal two =
     (Inl (BoundError not_implemented_message), h)"

section \<open>The Binding class\<close>

text \<open>
  Modelled from the spec: the constructor of \<^verbatim>\<open>Binding\<close> (section 4.1,
  \<^verbatim>\<open>construct(twoWay, initialValue)\<close>), whose source file \<^verbatim>\<open>src/binding\<close> is missing: a
  new Binding holds the flag and the initial value and has no mirror yet.
\<close>

definition Binding_ctor :: "heap \<Rightarrow> bool \<Rightarrow> val \<Rightarrow> addr \<times> heap" where
  "Binding_ctor h two v = alloc h (BindingCell \<lparr>b_twoWay = two, b_value = v, b_masters = []\<rparr>)"

text \<open>
  Modelled from the spec: \<^verbatim>\<open>addMasterBinding(target, key)\<close> of the missing
  \<^verbatim>\<open>src/binding\<close> (section 4.1): it registers the pair as a mirror and immediately sets
  \<^verbatim>\<open>target[key]\<close> to the Binding's current value.
\<close>

definition addMasterBinding :: "heap \<Rightarrow> addr \<Rightarrow> val \<Rightarrow> string \<Rightarrow> (error + unit) \<times> heap" where
  "addMasterBinding h b target key =
     (case lookup h b of
        Some (BindingCell bd) \<Rightarrow>
          set_prop (h[b := BindingCell (bd\<lparr>b_masters := b_masters bd @ [(target, key)]\<rparr>)])
            target key (b_value bd)
      | _ \<Rightarrow> (Inl (TypeError ''addMasterBinding is not a function''), h))"

text \<open>
  Modelled from the spec: the value write of the missing \<^verbatim>\<open>src/binding\<close> (section 4.1):
  it updates the tracked value and then assigns the new value to \<^verbatim>\<open>target[key]\<close> for
  every registered pair, in registration order.
\<close>

fun propagate :: "heap \<Rightarrow> (val \<times> string) list \<Rightarrow> val \<Rightarrow> (error + unit) \<times> heap" where
  "propagate h [] v = (Inr (), h)"
| "propagate h ((target, key) # ms) v =
     (case set_prop h target key v of
        (Inl e, h1) \<Rightarrow> (Inl e, h1)
      | (Inr u, h1) \<Rightarrow> propagate h1 ms v)"

definition Binding_set :: "heap \<Rightarrow> addr \<Rightarrow> val \<Rightarrow> (error + unit) \<times> heap" where
  "Binding_set h b v =
     (case lookup h b of
        Some (BindingCell bd) \<Rightarrow>
          propagate (h[b := BindingCell (bd\<lparr>b_value := v\<rparr>)]) (b_masters bd) v
      | _ \<Rightarrow> (Inl (TypeError ''not a Binding''), h))"

text \<open>
  Modelled from the spec: the value read of the missing \<^verbatim>\<open>src/binding\<close> (section 4.1):
  the Binding's own copy, never re-derived from a target.
\<close>

definition Binding_get :: "heap \<Rightarrow> addr \<Rightarrow> error + val" where
  "Binding_get h b =
     (case lookup h b of
        Some (BindingCell bd) \<Rightarrow> Inr (b_value bd)
      | _ \<Rightarrow> Inl (TypeError ''not a Binding''))"

section \<open>The JSON round trip\<close>

datatype json = JNull | JBool bool | JNum int | JStr string | JObj "(string \<times> json) list"

text \<open>
  \<^verbatim>\<open>JSON.stringify\<close> on the heap: \<^verbatim>\<open>undefined\<close> has no serialisation (\<open>None\<close>), an object
  gives its enumerable own properties in enumeration order, without those whose value
  has none. The fuel
  bounds the nesting depth; started at the number of cells, it runs out exactly on a
  cyclic structure, where \<^verbatim>\<open>JSON.stringify\<close> throws a TypeError. The fields of a Binding
  are not in the sources: it serialises as an object with no data property.
\<close>

fun to_json :: "nat \<Rightarrow> heap \<Rightarrow> val \<Rightarrow> error + json option"
  and props_to_json :: "nat \<Rightarrow> heap \<Rightarrow> (string \<times> property) list \<Rightarrow> error + (string \<times> json) list"
where
  "to_json n h Undefined = Inr None"
| "to_json n h Null = Inr (Some JNull)"
| "to_json n h (Bool b) = Inr (Some (JBool b))"
| "to_json n h (Num i) = Inr (Some (JNum i))"
| "to_json n h (Str s) = Inr (Some (JStr s))"
| "to_json n h (Ref a) =
     (case lookup h a of
        None \<Rightarrow> Inr None
      | Some (BindingCell bd) \<Rightarrow> Inr (Some (JObj []))
      | Some (ObjCell c ps) \<Rightarrow>
          (case n of
             0 \<Rightarrow> Inl (TypeError ''Converting circular structure to JSON'')
           | Suc m \<Rightarrow>
               (case props_to_json m h
                       (prop_order (filter (\<lambda>kp. p_enumerable (snd kp)) ps)) of
                  Inl e \<Rightarrow> Inl e
                | Inr fs \<Rightarrow> Inr (Some (JObj fs)))))"
| "props_to_json n h [] = Inr []"
| "props_to_json n h ((k, p) # ps) =
     (case to_json n h (p_value p) of
        Inl e \<Rightarrow> Inl e
      | Inr None \<Rightarrow> props_to_json n h ps
      | Inr (Some j) \<Rightarrow>
          (case props_to_json n h ps of
             Inl e \<Rightarrow> Inl e
           | Inr fs \<Rightarrow> Inr ((k, j) # fs)))"

text \<open>\<^verbatim>\<open>JSON.parse\<close>: every object of the text is a fresh plain object.\<close>

fun from_json :: "json \<Rightarrow> heap \<Rightarrow> val \<times> heap"
  and props_from_json :: "(string \<times> json) list \<Rightarrow> heap \<Rightarrow> (string \<times> property) list \<times> heap"
where
  "from_json JNull h = (Null, h)"
| "from_json (JBool b) h = (Bool b, h)"
| "from_json (JNum i) h = (Num i, h)"
| "from_json (JStr s) h = (Str s, h)"
| "from_json (JObj fs) h =
     (let (ps, h1) = props_from_json fs h;
          (a, h2) = alloc h1 (ObjCell PlainObject ps)
      in (Ref a, h2))"
| "props_from_json [] h = ([], h)"
| "props_from_json ((k, j) # fs) h =
     (let (v, h1) = from_json j h;
          (ps, h2) = props_from_json fs h1
      in ((k, data_prop v) # ps, h2))"

text \<open>
  \<^verbatim>\<open>JSON.parse(JSON.stringify(obj))\<close>: \<^verbatim>\<open>JSON.stringify(undefined)\<close> is \<^verbatim>\<open>undefined\<close>, which
  \<^verbatim>\<open>JSON.parse\<close> rejects with a SyntaxError.
\<close>

definition JSON_roundtrip :: "heap \<Rightarrow> val \<Rightarrow> (error + val) \<times> heap" where
  "JSON_roundtrip h obj =
     (case to_json (length h) h obj of
        Inl e \<Rightarrow> (Inl e, h)
      | Inr None \<Rightarrow> (Inl (SyntaxError ''\"undefined\" is not valid JSON''), h)
      | Inr (Some j) \<Rightarrow> (let (v, h1) = from_json j h in (Inr v, h1)))"

section \<open>SimpleBound (src/bound/simple.ts)\<close>

text \<open>
  The method call \<^verbatim>\<open>(this.storage[key] as Binding).addMasterBinding(obj, key)\<close>: the cast
  checks nothing at run time, and an object that is not a Binding has no such method.
\<close>

definition call_addMasterBinding :: "heap \<Rightarrow> val \<Rightarrow> val \<Rightarrow> string \<Rightarrow> (error + unit) \<times> heap" where
  "call_addMasterBinding h s obj key =
     (case s of
        Undefined \<Rightarrow> (Inl (TypeError ''Cannot read properties of undefined''), h)
      | Null \<Rightarrow> (Inl (TypeError ''Cannot read properties of null''), h)
      | Ref a \<Rightarrow>
          (case lookup h a of
             Some (BindingCell bd) \<Rightarrow> addMasterBinding h a obj key
           | _ \<Rightarrow> (Inl (TypeError ''addMasterBinding is not a function''), h))
      | _ \<Rightarrow> (Inl (TypeError ''addMasterBinding is not a function''), h))"

text \<open>
  The constructor of \<^verbatim>\<open>SimpleBound\<close>. \<^verbatim>\<open>super()\<close> passes no argument, so the base
  constructor sees \<^verbatim>\<open>undefined\<close> for \<^verbatim>\<open>proto\<close> and for \<^verbatim>\<open>plugins\<close>; after it the class's own
  field initialiser gives \<^verbatim>\<open>storage = {}\<close> again, and the body takes the snapshot and
  loops over its keys (\<open>SimpleBound_fields\<close>, one call per remaining key). The body reads
  \<^verbatim>\<open>this.bound\<close> and \<^verbatim>\<open>bound.bound\<close>, a property that no class of the sources declares. The
  fuel bounds the depth of the nested constructor calls.
\<close>

fun SimpleBound_ctor :: "nat \<Rightarrow> config \<Rightarrow> heap \<Rightarrow> val \<Rightarrow> (error + addr) \<times> heap"
  and SimpleBound_fields ::
    "nat \<Rightarrow> config \<Rightarrow> addr \<Rightarrow> val \<Rightarrow> string list \<Rightarrow> heap \<Rightarrow> (error + unit) \<times> heap"
where
  "SimpleBound_ctor fuel cfg h obj =
     (case BaseBound_ctor cfg h Undefined Undefined of
        (Inl e, h1) \<Rightarrow> (Inl e, h1)
      | (Inr this, h1) \<Rightarrow>
          (let (st, h2) = alloc h1 (ObjCell PlainObject []) in
           case set_prop h2 (Ref this) ''storage'' (Ref st) of
             (Inl e, h3) \<Rightarrow> (Inl e, h3)
           | (Inr u, h3) \<Rightarrow>
               (case JSON_roundtrip h3 obj of
                  (Inl e, h4) \<Rightarrow> (Inl e, h4)
                | (Inr original, h4) \<Rightarrow>
                    (case fuel of
                       0 \<Rightarrow> (Inl (RangeError ''Maximum call stack size exceeded''), h4)
                     | Suc n \<Rightarrow>
                         (case SimpleBound_fields n cfg this original
                                 (for_in_keys h4 original) h4 of
                            (Inl e, h5) \<Rightarrow> (Inl e, h5)
                          | (Inr u, h5) \<Rightarrow> (Inr this, h5))))))"
| "SimpleBound_fields n cfg this original [] h = (Inr (), h)"
| "SimpleBound_fields n cfg this original (key # keys) h =
     (case get_prop h original key of
        Inl e \<Rightarrow> (Inl e, h)
      | Inr v \<Rightarrow>
          (case (if typeof v = ''object''
                 then
                   (case SimpleBound_ctor n cfg h v of
                      (Inl e, h1) \<Rightarrow> (Inl e, h1)
                    | (Inr bound, h1) \<Rightarrow>
                        (case get_prop h1 (Ref this) ''bound'' of
                           Inl e \<Rightarrow> (Inl e, h1)
                         | Inr tb \<Rightarrow>
                             (case get_prop h1 (Ref bound) ''bound'' of
                                Inl e \<Rightarrow> (Inl e, h1)
                              | Inr cb \<Rightarrow>
                                  (case set_prop h1 tb key cb of
                                     (Inl e, h2) \<Rightarrow> (Inl e, h2)
                                   | (Inr u, h2) \<Rightarrow>
                                       (case get_prop h2 (Ref this) ''storage'' of
                                          Inl e \<Rightarrow> (Inl e, h2)
                                        | Inr ts \<Rightarrow>
                                            (case get_prop h2 (Ref bound) ''storage'' of
                                               Inl e \<Rightarrow> (Inl e, h2)
                                             | Inr cs \<Rightarrow> set_prop h2 ts key cs))))))
                 else
                   (let (binding, h1) = Binding_ctor h True v in
                    case get_prop h1 (Ref this) ''bound'' of
                      Inl e \<Rightarrow> (Inl e, h1)
                    | Inr tb \<Rightarrow>
                        (case addMasterBinding h1 binding tb key of
                           (Inl e, h2) \<Rightarrow> (Inl e, h2)
                         | (Inr u, h2) \<Rightarrow>
                             (case get_prop h2 (Ref this) ''storage'' of
                                Inl e \<Rightarrow> (Inl e, h2)
                              | Inr ts \<Rightarrow> set_prop h2 ts key (Ref binding))))) of
             (Inl e, h') \<Rightarrow> (Inl e, h')
           | (Inr u, h') \<Rightarrow> SimpleBound_fields n cfg this original keys h'))"

text \<open>
  \<^verbatim>\<open>bind(obj) { for (const key in this.storage) { (this.storage[key] as Binding).addMasterBinding(obj, key); } }\<close>
  The keys are those of \<^verbatim>\<open>this.storage\<close> when the loop starts; \<^verbatim>\<open>this.storage\<close> is read
  again in each round. The method returns nothing.
\<close>

fun bind_keys :: "heap \<Rightarrow> addr \<Rightarrow> string list \<Rightarrow> val \<Rightarrow> (error + unit) \<times> heap" where
  "bind_keys h this [] obj = (Inr (), h)"
| "bind_keys h this (key # keys) obj =
     (case get_prop h (Ref this) ''storage'' of
        Inl e \<Rightarrow> (Inl e, h)
      | Inr st \<Rightarrow>
          (case get_prop h st key of
             Inl e \<Rightarrow> (Inl e, h)
           | Inr s \<Rightarrow>
               (case call_addMasterBinding h s obj key of
                  (Inl e, h1) \<Rightarrow> (Inl e, h1)
                | (Inr u, h1) \<Rightarrow> bind_keys h1 this keys obj)))"

definition bind :: "heap \<Rightarrow> addr \<Rightarrow> val \<Rightarrow> (error + unit) \<times> heap" where
  "bind h this obj =
     (case get_prop h (Ref this) ''storage'' of
        Inl e \<Rightarrow> (Inl e, h)
      | Inr st \<Rightarrow> bind_keys h this (for_in_keys h st) obj)"

section \<open>Heaps and scenarios of the statements\<close>

text \<open>
  What the constructor of \<^verbatim>\<open>BaseBound\<close> appends to a heap \<open>h\<close>: the instance at
  \<open>length h\<close>, its empty \<^verbatim>\<open>storage\<close> after it, and \<^verbatim>\<open>boundObject\<close> last.
\<close>

definition BaseBound_heap :: "heap \<Rightarrow> val \<Rightarrow> heap" where
  "BaseBound_heap h plugins =
     h @ [ObjCell BaseBoundInstance
            [(''plugins'', data_prop plugins),
             (''storage'', data_prop (Ref (Suc (length h)))),
             (''boundObject'', data_prop (Ref (Suc (Suc (length h)))))],
          ObjCell PlainObject [],
          ObjCell PlainObject [(''__bound__'', data_prop (Ref (length h)))]]"

text \<open>
  A heap is closed when no cell holds a reference beyond its end: a run of the program
  never sees a reference to an object that does not exist yet.
\<close>

definition val_in :: "heap \<Rightarrow> val \<Rightarrow> bool" where
  "val_in h v = (case v of Ref a \<Rightarrow> a < length h | _ \<Rightarrow> True)"

definition cell_in :: "heap \<Rightarrow> cell \<Rightarrow> bool" where
  "cell_in h c =
     (case c of
        ObjCell cl ps \<Rightarrow> list_all (\<lambda>kp. val_in h (p_value (snd kp))) ps
      | BindingCell bd \<Rightarrow>
          val_in h (b_value bd) \<and> list_all (\<lambda>m. val_in h (fst m)) (b_masters bd))"

definition heap_closed :: "heap \<Rightarrow> bool" where
  "heap_closed h = list_all (cell_in h) h"

text \<open>The prototype \<^verbatim>\<open>{x: 1}\<close> at address 0 and an empty target \<^verbatim>\<open>{}\<close> at address 1.\<close>

definition example_heap :: heap where
  "example_heap = [ObjCell PlainObject [(''x'', data_prop (Num 1))], ObjCell PlainObject []]"

text \<open>
  \<open>example_heap\<close> after the constructor of \<^verbatim>\<open>BaseBound\<close> has run on the prototype at
  address 0: the instance is at address 2, its \<^verbatim>\<open>boundObject\<close> at address 4.
\<close>

definition example_bound_heap :: heap where
  "example_bound_heap = snd (BaseBound_ctor \<lparr>debug = False\<rparr> example_heap (Ref 0) Undefined)"

text \<open>
  An instance (address 0) with the storage and the mirror that section 4.3 of the
  specification prescribes for the prototype \<^verbatim>\<open>{a: 1, b: {c: 2}}\<close>: \<^verbatim>\<open>storage.a\<close> is a
  Binding, \<^verbatim>\<open>storage.b\<close> the storage of the child instance (address 7). Address 8 holds an
  empty target \<^verbatim>\<open>{}\<close>.
\<close>

definition nested_instance_heap :: heap where
  "nested_instance_heap =
     [ObjCell BaseBoundInstance
        [(''plugins'', data_prop Undefined), (''storage'', data_prop (Ref 1)),
         (''boundObject'', data_prop (Ref 2))],
      ObjCell PlainObject [(''a'', data_prop (Ref 3)), (''b'', data_prop (Ref 4))],
      ObjCell PlainObject
        [(''__bound__'', data_prop (Ref 0)), (''a'', data_prop (Num 1)),
         (''b'', data_prop (Ref 6))],
      BindingCell \<lparr>b_twoWay = True, b_value = Num 1, b_masters = [(Ref 2, ''a'')]\<rparr>,
      ObjCell PlainObject [(''c'', data_prop (Ref 5))],
      BindingCell \<lparr>b_twoWay = True, b_value = Num 2, b_masters = [(Ref 6, ''c'')]\<rparr>,
      ObjCell PlainObject [(''__bound__'', data_prop (Ref 7)), (''c'', data_prop (Num 2))],
      ObjCell BaseBoundInstance
        [(''plugins'', data_prop Undefined), (''storage'', data_prop (Ref 4)),
         (''boundObject'', data_prop (Ref 6))],
      ObjCell PlainObject []]"

text \<open>
  Two targets and a Binding (address 2) with three registrations, one pair twice.
\<close>

definition mirrors_heap :: heap where
  "mirrors_heap =
     [ObjCell PlainObject [(''x'', data_prop (Num 1))],
      ObjCell PlainObject [(''y'', data_prop (Num 1)), (''z'', data_prop (Str ''kept''))],
      BindingCell \<lparr>b_twoWay = True, b_value = Num 1,
                    b_masters = [(Ref 0, ''x''), (Ref 1, ''y''), (Ref 0, ''x'')]\<rparr>]"

text \<open>The value of the Binding that a stored value refers to, if it is one.\<close>

definition binding_value :: "heap \<Rightarrow> val \<Rightarrow> val option" where
  "binding_value h x =
     (case x of
        Ref b \<Rightarrow> (case lookup h b of Some (BindingCell bd) \<Rightarrow> Some (b_value bd) | _ \<Rightarrow> None)
      | _ \<Rightarrow> None)"

text \<open>
  A constructed instance as sections 3, 4.3 and 8 of the specification describe it: the
  keys of \<^verbatim>\<open>storage\<close> are distinct, and wherever \<^verbatim>\<open>storage[k]\<close> is a Binding, the mirror
  \<^verbatim>\<open>boundObject[k]\<close> shows the value of that Binding (the mirror is the Binding's first
  registered pair and is kept in step with it).
\<close>

definition in_step :: "heap \<Rightarrow> addr \<Rightarrow> bool" where
  "in_step h this =
     (case get_prop h (Ref this) ''storage'' of
        Inl e \<Rightarrow> False
      | Inr st \<Rightarrow>
          (case get_prop h (Ref this) ''boundObject'' of
             Inl e \<Rightarrow> False
           | Inr bo \<Rightarrow>
               distinct (for_in_keys h st) \<and>
               list_all
                 (\<lambda>k. case get_prop h st k of
                        Inl e \<Rightarrow> False
                      | Inr x \<Rightarrow>
                          (case binding_value h x of
                             None \<Rightarrow> True
                           | Some v \<Rightarrow> get_prop h bo k = Inr v))
                 (for_in_keys h st)))"

text \<open>
  An instance (address 0) with the storage and the mirror that section 4.3 of the
  specification prescribes for the prototype \<^verbatim>\<open>{x: 1, n: 2}\<close>, and a target \<^verbatim>\<open>{n: 7}\<close> at
  address 5.
\<close>

definition flat_instance_heap :: heap where
  "flat_instance_heap =
     [ObjCell BaseBoundInstance
        [(''plugins'', data_prop Undefined), (''storage'', data_prop (Ref 1)),
         (''boundObject'', data_prop (Ref 2))],
      ObjCell PlainObject [(''x'', data_prop (Ref 3)), (''n'', data_prop (Ref 4))],
      ObjCell PlainObject
        [(''__bound__'', data_prop (Ref 0)), (''x'', data_prop (Num 1)),
         (''n'', data_prop (Num 2))],
      BindingCell \<lparr>b_twoWay = True, b_value = Num 1, b_masters = [(Ref 2, ''x'')]\<rparr>,
      BindingCell \<lparr>b_twoWay = True, b_value = Num 2, b_masters = [(Ref 2, ''n'')]\<rparr>,
      ObjCell PlainObject [(''n'', data_prop (Num 7))]]"

section \<open>Properties of the heap operations\<close>

text \<open>Array indices come first, by value; \<^verbatim>\<open>01\<close> is not one.\<close>

lemma prop_order_example:
  "map fst (prop_order [(''b'', ()), (''10'', ()), (''2'', ()), (''01'', ()), (''0'', ())]) =
     [''0'', ''2'', ''10'', ''b'', ''01'']"
  by (simp add: prop_order_def is_array_index_def index_val_def)

lemma map_of_put: "map_of (put k p ps) = (map_of ps)(k \<mapsto> p)"
  by (induction ps) auto

lemma lookup_append_old: "a < length h \<Longrightarrow> lookup (h @ xs) a = lookup h a"
  by (simp add: lookup_def nth_append)

lemma instanceof_old:
  "val_in h v \<Longrightarrow> instanceof_BaseBound (h @ xs) v = instanceof_BaseBound h v"
  by (cases v) (simp_all add: instanceof_BaseBound_def val_in_def lookup_append_old)

lemma get_prop_old:
  "val_in h v \<Longrightarrow> get_prop (h @ xs) v k = get_prop h v k"
  by (cases v) (simp_all add: get_prop_def val_in_def lookup_append_old)

lemma get_prop_closed:
  assumes "heap_closed h" "val_in h v" "get_prop h v k = Inr x"
  shows "val_in h x"
proof (cases v)
  case (Ref a)
  with assms(2) have a: "a < length h" by (simp add: val_in_def)
  with assms(1) have c: "cell_in h (h ! a)" by (simp add: heap_closed_def list_all_length)
  show ?thesis
  proof (cases "h ! a")
    case (ObjCell cl ps)
    show ?thesis
    proof (cases "map_of ps k")
      case None
      with assms(3) Ref a ObjCell show ?thesis by (simp add: get_prop_def lookup_def val_in_def)
    next
      case (Some p)
      then have "(k, p) \<in> set ps" by (rule map_of_SomeD)
      with c ObjCell have "val_in h (p_value p)" by (auto simp: cell_in_def list_all_iff)
      with assms(3) Ref a ObjCell Some show ?thesis by (simp add: get_prop_def lookup_def)
    qed
  next
    case (BindingCell bd)
    with assms(3) Ref a show ?thesis by (simp add: get_prop_def lookup_def val_in_def)
  qed
qed (use assms(3) in \<open>auto simp: get_prop_def val_in_def\<close>)

text \<open>Allocation does not change what \<^verbatim>\<open>isBound\<close> says of an object of a closed heap.\<close>

lemma isBound_old:
  assumes "heap_closed h" "val_in h v"
  shows "isBound (h @ xs) v = isBound h v"
proof (cases "get_prop h v ''__bound__''")
  case (Inl e)
  with assms(2) show ?thesis by (simp add: isBound_def get_prop_old)
next
  case (Inr x)
  with assms have "val_in h x" by (rule get_prop_closed)
  with Inr assms(2) show ?thesis by (simp add: isBound_def get_prop_old instanceof_old)
qed

lemma length_set_prop: "set_prop h t k x = (r, h') \<Longrightarrow> length h' = length h"
  by (auto simp: set_prop_def split: val.splits option.splits cell.splits if_splits)

lemma set_prop_get_same: "set_prop h t k x = (Inr u, h') \<Longrightarrow> get_prop h' t k = Inr x"
  by (auto simp: set_prop_def get_prop_def lookup_def map_of_put data_prop_def
      split: val.splits option.splits cell.splits if_splits)

lemma set_prop_get_other:
  "set_prop h t k x = (r, h') \<Longrightarrow> t' \<noteq> t \<or> k' \<noteq> k \<Longrightarrow> get_prop h' t' k' = get_prop h t' k'"
  by (cases t'; cases "t' = t")
    (auto simp: set_prop_def get_prop_def lookup_def map_of_put
      split: val.splits option.splits cell.splits if_splits)

lemma set_prop_binding:
  "set_prop h t k x = (r, h') \<Longrightarrow> lookup h b = Some (BindingCell bd) \<Longrightarrow>
   lookup h' b = Some (BindingCell bd)"
  by (cases "t = Ref b")
    (auto simp: set_prop_def lookup_def nth_list_update
      split: val.splits option.splits cell.splits if_splits)

section \<open>Properties of the constructors\<close>

lemma BaseBound_ctor_heap: "snd (BaseBound_ctor cfg h proto plugins) = BaseBound_heap h plugins"
  by (simp add: BaseBound_ctor_def BaseBound_heap_def alloc_def set_prop_def get_prop_def
      defineProperty_def lookup_def nth_append data_prop_def redefinable_def redefine_def
      list_update_append Let_def split: sum.splits bool.splits)

lemma BaseBound_ctor_result:
  "fst (BaseBound_ctor cfg h proto plugins) =
     (if debug cfg \<and> typeof proto \<noteq> ''object''
      then Inl (BoundError only_objects_message)
      else
        (case (if debug cfg \<and> instanceof_BaseBound (BaseBound_heap h plugins) proto then Inr True
               else isBound (BaseBound_heap h plugins) proto) of
           Inl e \<Rightarrow> Inl e
         | Inr True \<Rightarrow> Inl (BoundError rebind_message)
         | Inr False \<Rightarrow> Inr (length h)))"
  by (simp add: BaseBound_ctor_def BaseBound_heap_def alloc_def set_prop_def get_prop_def
      defineProperty_def lookup_def nth_append data_prop_def redefinable_def redefine_def
      list_update_append Let_def split: sum.splits bool.splits)

lemma BaseBound_ctor_undefined:
  "BaseBound_ctor cfg h Undefined plugins =
     (Inl (if debug cfg then BoundError only_objects_message
           else TypeError ''Cannot read properties of undefined''),
      BaseBound_heap h plugins)"
  by (rule prod_eqI)
    (simp_all add: BaseBound_ctor_heap BaseBound_ctor_result isBound_def get_prop_def)

text \<open>
  \<^verbatim>\<open>super()\<close> hands \<^verbatim>\<open>undefined\<close> to the base constructor, which throws on it in either
  debug mode: the body of the constructor of \<^verbatim>\<open>SimpleBound\<close> never runs.
\<close>

lemma SimpleBound_ctor_throws:
  "SimpleBound_ctor fuel cfg h obj =
     (Inl (if debug cfg then BoundError only_objects_message
           else TypeError ''Cannot read properties of undefined''),
      BaseBound_heap h Undefined)"
  by (simp add: BaseBound_ctor_undefined SimpleBound_ctor.simps [of fuel cfg h obj]
      del: SimpleBound_ctor.simps)

text \<open>
  Had the base constructor returned, the loop would still throw at its first key: an
  object value leads into the constructor again, and a primitive one is registered at
  \<^verbatim>\<open>this.bound\<close>, which is \<^verbatim>\<open>undefined\<close> where no class declares the property.
\<close>

lemma SimpleBound_fields_throws:
  assumes "this < length h" "get_prop h (Ref this) ''bound'' = Inr Undefined"
    and "get_prop h original key = Inr v"
  shows "\<exists>e h'. SimpleBound_fields n cfg this original (key # keys) h = (Inl e, h')"
proof (cases "typeof v = ''object''")
  case True
  with assms(3) show ?thesis
    by (simp add: SimpleBound_ctor_throws del: SimpleBound_ctor.simps)
next
  case False
  from assms(1,2) have "get_prop (h @ xs) (Ref this) ''bound'' = Inr Undefined" for xs
    by (simp add: get_prop_old val_in_def)
  with False assms(3) show ?thesis
    by (simp add: Binding_ctor_def alloc_def addMasterBinding_def lookup_def set_prop_def
        del: SimpleBound_ctor.simps)
qed

lemma BaseBound_ctor_pre:
  assumes "heap_closed h" "val_in h proto"
  shows "fst (BaseBound_ctor cfg h proto plugins) =
     (if debug cfg \<and> typeof proto \<noteq> ''object'' then Inl (BoundError only_objects_message)
      else if debug cfg \<and> instanceof_BaseBound h proto then Inl (BoundError rebind_message)
      else (case isBound h proto of
              Inl e \<Rightarrow> Inl e
            | Inr True \<Rightarrow> Inl (BoundError rebind_message)
            | Inr False \<Rightarrow> Inr (length h)))"
  using assms
  by (simp add: BaseBound_ctor_result BaseBound_heap_def instanceof_old isBound_old)

lemma isBound_boundObject:
  assumes "BaseBound_ctor cfg h proto plugins = (Inr this, h')"
  shows "get_prop h' (Ref this) ''boundObject'' = Inr (Ref (Suc (Suc (length h)))) \<and>
         isBound h' (Ref (Suc (Suc (length h)))) = Inr True"
proof -
  from assms have h': "h' = BaseBound_heap h plugins"
    using BaseBound_ctor_heap [of cfg h proto plugins] by simp
  from assms have "fst (BaseBound_ctor cfg h proto plugins) = Inr this" by simp
  then have t: "this = length h"
    by (simp add: BaseBound_ctor_result split: if_splits sum.splits bool.splits)
  show ?thesis
    by (simp add: h' t BaseBound_heap_def get_prop_def isBound_def lookup_def nth_append
        data_prop_def instanceof_BaseBound_def)
qed

lemma example_heap_closed: "heap_closed example_heap"
  by (simp add: heap_closed_def example_heap_def cell_in_def val_in_def data_prop_def)

lemma example_bound_heap_eq:
  "example_bound_heap =
     [ObjCell PlainObject [(''x'', data_prop (Num 1))], ObjCell PlainObject [],
      ObjCell BaseBoundInstance
        [(''plugins'', data_prop Undefined), (''storage'', data_prop (Ref 3)),
         (''boundObject'', data_prop (Ref 4))],
      ObjCell PlainObject [],
      ObjCell PlainObject [(''__bound__'', data_prop (Ref 2))]]"
  by (simp add: example_bound_heap_def BaseBound_ctor_heap BaseBound_heap_def example_heap_def
      numeral_3_eq_3 eval_nat_numeral)

lemma example_bound_heap_closed: "heap_closed example_bound_heap"
  by (simp add: heap_closed_def example_bound_heap_eq cell_in_def val_in_def data_prop_def)

section \<open>Properties of the value write of a Binding\<close>

text \<open>A mirror that already shows the value being written keeps showing it.\<close>

lemma propagate_keeps:
  "propagate h ms v = (r, h') \<Longrightarrow> get_prop h t k = Inr v \<Longrightarrow> get_prop h' t k = Inr v"
proof (induction ms arbitrary: h)
  case Nil
  then show ?case by simp
next
  case (Cons m ms)
  obtain t' k' where m: "m = (t', k')" by (cases m)
  obtain r1 h1 where s: "set_prop h t' k' v = (r1, h1)" by (cases "set_prop h t' k' v")
  have g: "get_prop h1 t k = Inr v"
  proof (cases "t = t' \<and> k = k'")
    case True
    show ?thesis
    proof (cases r1)
      case (Inl e)
      with s have "h1 = h"
        by (auto simp: set_prop_def split: val.splits option.splits cell.splits if_splits)
      with Cons.prems(2) show ?thesis by simp
    next
      case (Inr u)
      with s True show ?thesis by (simp add: set_prop_get_same)
    qed
  next
    case False
    with s Cons.prems(2) show ?thesis by (simp add: set_prop_get_other)
  qed
  show ?case
  proof (cases r1)
    case (Inl e)
    with s Cons.prems(1) m have "h' = h1" by simp
    with g show ?thesis by simp
  next
    case (Inr u)
    with s Cons.prems(1) m have "propagate h1 ms v = (r, h')" by simp
    from Cons.IH [OF this g] show ?thesis .
  qed
qed

lemma propagate_all:
  "propagate h ms v = (Inr u, h') \<Longrightarrow> (t, k) \<in> set ms \<Longrightarrow> get_prop h' t k = Inr v"
proof (induction ms arbitrary: h)
  case Nil
  then show ?case by simp
next
  case (Cons m ms)
  obtain t' k' where m: "m = (t', k')" by (cases m)
  obtain r1 h1 where s: "set_prop h t' k' v = (r1, h1)" by (cases "set_prop h t' k' v")
  from Cons.prems(1) m s obtain u1 where r1: "r1 = Inr u1" and p: "propagate h1 ms v = (Inr u, h')"
    by (cases r1) auto
  show ?case
  proof (cases "(t, k) = (t', k')")
    case True
    with s r1 have "get_prop h1 t k = Inr v" by (simp add: set_prop_get_same)
    with p show ?thesis by (rule propagate_keeps)
  next
    case False
    with Cons.prems(2) m have "(t, k) \<in> set ms" by auto
    with p show ?thesis by (rule Cons.IH)
  qed
qed

lemma propagate_binding:
  "propagate h ms v = (r, h') \<Longrightarrow> lookup h b = Some (BindingCell bd) \<Longrightarrow>
   lookup h' b = Some (BindingCell bd)"
proof (induction ms arbitrary: h)
  case Nil
  then show ?case by simp
next
  case (Cons m ms)
  obtain t' k' where m: "m = (t', k')" by (cases m)
  obtain r1 h1 where s: "set_prop h t' k' v = (r1, h1)" by (cases "set_prop h t' k' v")
  from s Cons.prems(2) have b1: "lookup h1 b = Some (BindingCell bd)" by (rule set_prop_binding)
  show ?case
  proof (cases r1)
    case (Inl e)
    with s Cons.prems(1) m b1 show ?thesis by simp
  next
    case (Inr u)
    with s Cons.prems(1) m have "propagate h1 ms v = (r, h')" by simp
    from Cons.IH [OF this b1] show ?thesis .
  qed
qed

section \<open>Properties of bind\<close>

text \<open>
  What \<^verbatim>\<open>bind\<close> does where it returns: the call on a stored value succeeds only on a
  Binding, and it leaves the target's key at the Binding's value.
\<close>

lemma call_addMasterBinding_ok:
  assumes "call_addMasterBinding h x t k = (Inr u, h1)"
  obtains b bd where "x = Ref b" "lookup h b = Some (BindingCell bd)"
    "set_prop (h[b := BindingCell (bd\<lparr>b_masters := b_masters bd @ [(t, k)]\<rparr>)]) t k (b_value bd)
       = (Inr u, h1)"
  using assms
  by (auto simp: call_addMasterBinding_def addMasterBinding_def
      split: val.splits option.splits cell.splits)

lemma get_prop_binding_update:
  "lookup h b = Some (BindingCell bd) \<Longrightarrow> get_prop (h[b := BindingCell bd']) v k = get_prop h v k"
  by (cases v) (auto simp: get_prop_def lookup_def nth_list_update split: if_splits)

lemma lookup_binding_update:
  "lookup h b = Some (BindingCell bd) \<Longrightarrow>
   lookup (h[b := BindingCell bd']) b' = (if b' = b then Some (BindingCell bd') else lookup h b')"
  by (auto simp: lookup_def split: if_splits)

lemma call_addMasterBinding_step:
  assumes "call_addMasterBinding h x t k = (Inr u, h1)"
  shows "\<exists>v. binding_value h x = Some v \<and> get_prop h1 t k = Inr v \<and>
             (\<forall>t' k'. t' \<noteq> t \<or> k' \<noteq> k \<longrightarrow> get_prop h1 t' k' = get_prop h t' k') \<and>
             (\<forall>y. binding_value h1 y = binding_value h y)"
proof -
  from assms obtain b bd where x: "x = Ref b" and l: "lookup h b = Some (BindingCell bd)"
    and s: "set_prop (h[b := BindingCell (bd\<lparr>b_masters := b_masters bd @ [(t, k)]\<rparr>)]) t k (b_value bd)
       = (Inr u, h1)" (is "set_prop ?h0 _ _ _ = _")
    by (rule call_addMasterBinding_ok)
  have v: "binding_value h x = Some (b_value bd)" using x l by (simp add: binding_value_def)
  have g: "get_prop h1 t k = Inr (b_value bd)" using s by (rule set_prop_get_same)
  have o: "get_prop h1 t' k' = get_prop h t' k'" if "t' \<noteq> t \<or> k' \<noteq> k" for t' k'
    using set_prop_get_other [OF s that] l by (simp add: get_prop_binding_update)
  have bv: "binding_value h1 y = binding_value h y" for y
  proof (cases y)
    case (Ref c)
    show ?thesis
    proof (cases "lookup ?h0 c")
      case None
      with s have "lookup h1 c = None"
        using length_set_prop [OF s] by (simp add: lookup_def split: if_splits)
      moreover from None l have "lookup h c = None"
        by (simp add: lookup_binding_update split: if_splits)
      ultimately show ?thesis using Ref by (simp add: binding_value_def)
    next
      case (Some cl)
      show ?thesis
      proof (cases cl)
        case (BindingCell bd2)
        with Some s have 1: "lookup h1 c = Some (BindingCell bd2)"
          by (simp add: set_prop_binding)
        from Some BindingCell l have "\<exists>bd3. lookup h c = Some (BindingCell bd3) \<and> b_value bd3 = b_value bd2"
          by (auto simp: lookup_binding_update split: if_splits)
        with 1 Ref show ?thesis by (auto simp: binding_value_def)
      next
        case (ObjCell cl2 ps)
        with Some l have 2: "lookup h c = Some (ObjCell cl2 ps)"
          by (auto simp: lookup_binding_update split: if_splits)
        from Some ObjCell s have "\<exists>ps'. lookup h1 c = Some (ObjCell cl2 ps')"
          by (auto simp: set_prop_def lookup_def nth_list_update
              split: val.splits option.splits cell.splits if_splits)
        with 2 Ref show ?thesis by (auto simp: binding_value_def)
      qed
    qed
  qed (simp_all add: binding_value_def)
  from v g o bv show ?thesis by blast
qed

lemma call_addMasterBinding_frame:
  assumes "call_addMasterBinding h x t k = (r, h1)" "t' \<noteq> t \<or> k' \<noteq> k"
  shows "get_prop h1 t' k' = get_prop h t' k'"
proof (cases "binding_value h x")
  case None
  with assms(1) have "h1 = h"
    by (auto simp: call_addMasterBinding_def binding_value_def
        split: val.splits option.splits cell.splits)
  then show ?thesis by simp
next
  case (Some v)
  then obtain b bd where x: "x = Ref b" and l: "lookup h b = Some (BindingCell bd)"
    by (auto simp: binding_value_def split: val.splits option.splits cell.splits)
  with assms(1) have
    "set_prop (h[b := BindingCell (bd\<lparr>b_masters := b_masters bd @ [(t, k)]\<rparr>)]) t k (b_value bd)
       = (r, h1)"
    by (simp add: call_addMasterBinding_def addMasterBinding_def)
  from set_prop_get_other [OF this assms(2)] l show ?thesis
    by (simp add: get_prop_binding_update)
qed

lemma bind_keys_frame:
  "bind_keys h this ks t = (r, h') \<Longrightarrow> t' \<noteq> t \<or> k \<notin> set ks \<Longrightarrow>
   get_prop h' t' k = get_prop h t' k"
proof (induction ks arbitrary: h)
  case Nil
  then show ?case by simp
next
  case (Cons key ks)
  show ?case
  proof (cases "get_prop h (Ref this) ''storage''")
    case (Inl e)
    with Cons.prems show ?thesis by simp
  next
    case st: (Inr st)
    show ?thesis
    proof (cases "get_prop h st key")
      case (Inl e)
      with Cons.prems st show ?thesis by simp
    next
      case x: (Inr x)
      obtain r1 h1 where c: "call_addMasterBinding h x t key = (r1, h1)"
        by (cases "call_addMasterBinding h x t key")
      from Cons.prems(2) have "t' \<noteq> t \<or> k \<noteq> key" by auto
      with c have g: "get_prop h1 t' k = get_prop h t' k"
        by (rule call_addMasterBinding_frame)
      show ?thesis
      proof (cases r1)
        case (Inl e)
        with Cons.prems(1) st x c have "h' = h1" by simp
        with g show ?thesis by simp
      next
        case (Inr u)
        with Cons.prems(1) st x c have "bind_keys h1 this ks t = (r, h')" by simp
        moreover from Cons.prems(2) have "t' \<noteq> t \<or> k \<notin> set ks" by auto
        ultimately have "get_prop h' t' k = get_prop h1 t' k" by (rule Cons.IH)
        with g show ?thesis by simp
      qed
    qed
  qed
qed

text \<open>
  When the loop of \<^verbatim>\<open>bind\<close> returns, the target shows at every key the value of the
  Binding stored at that key.
\<close>

lemma bind_keys_synchronises:
  assumes "bind_keys h this ks t = (Inr u, h')" "distinct ks" "t \<noteq> Ref this"
    and "get_prop h (Ref this) ''storage'' = Inr st" "k \<in> set ks"
  shows "\<exists>x v. get_prop h st k = Inr x \<and> binding_value h x = Some v \<and> get_prop h' t k = Inr v"
  using assms
proof (induction ks arbitrary: h)
  case Nil
  then show ?case by simp
next
  case (Cons key ks)
  from Cons.prems(1,4) obtain x where x: "get_prop h st key = Inr x"
    by (cases "get_prop h st key") auto
  obtain r1 h1 where c: "call_addMasterBinding h x t key = (r1, h1)"
    by (cases "call_addMasterBinding h x t key")
  from Cons.prems(1,4) x c obtain u1 where r1: "r1 = Inr u1"
    and rest: "bind_keys h1 this ks t = (Inr u, h')"
    by (cases r1) auto
  from c [unfolded r1] have "\<exists>v. binding_value h x = Some v \<and> get_prop h1 t key = Inr v \<and>
      (\<forall>t' k'. t' \<noteq> t \<or> k' \<noteq> key \<longrightarrow> get_prop h1 t' k' = get_prop h t' k') \<and>
      (\<forall>y. binding_value h1 y = binding_value h y)"
    by (rule call_addMasterBinding_step)
  then obtain v where v: "binding_value h x = Some v" and g: "get_prop h1 t key = Inr v"
    and o: "\<And>t' k'. t' \<noteq> t \<or> k' \<noteq> key \<Longrightarrow> get_prop h1 t' k' = get_prop h t' k'"
    and bv: "\<And>y. binding_value h1 y = binding_value h y"
    by blast
  show ?case
  proof (cases "k = key")
    case True
    with Cons.prems(2) have "k \<notin> set ks" by simp
    with rest have "get_prop h' t k = get_prop h1 t k" by (simp add: bind_keys_frame)
    with True x v g show ?thesis by simp
  next
    case False
    with Cons.prems(5) have k: "k \<in> set ks" by simp
    from Cons.prems(3,4) have s1: "get_prop h1 (Ref this) ''storage'' = Inr st" by (simp add: o)
    from Cons.prems(2) have d: "distinct ks" by simp
    from Cons.IH [OF rest d Cons.prems(3) s1 k]
    obtain x' v' where "get_prop h1 st k = Inr x'" "binding_value h1 x' = Some v'"
      "get_prop h' t k = Inr v'" by blast
    with False show ?thesis by (auto simp: o bv)
  qed
qed

lemma bind_synchronises:
  assumes "bind h this t = (Inr u, h')" "get_prop h (Ref this) ''storage'' = Inr st"
    and "distinct (for_in_keys h st)" "t \<noteq> Ref this" "k \<in> set (for_in_keys h st)"
  shows "\<exists>x v. get_prop h st k = Inr x \<and> binding_value h x = Some v \<and> get_prop h' t k = Inr v"
proof -
  from assms(1,2) have "bind_keys h this (for_in_keys h st) t = (Inr u, h')"
    by (simp add: bind_def)
  from bind_keys_synchronises [OF this assms(3,4,2,5)] show ?thesis .
qed

text \<open>\<^verbatim>\<open>bind\<close> writes to its target only, and there only at the keys of \<^verbatim>\<open>storage\<close>.\<close>

lemma bind_frame:
  assumes "bind h this t = (r, h')" "get_prop h (Ref this) ''storage'' = Inr st"
    and "t' \<noteq> t \<or> k \<notin> set (for_in_keys h st)"
  shows "get_prop h' t' k = get_prop h t' k"
proof -
  from assms(1,2) have "bind_keys h this (for_in_keys h st) t = (r, h')"
    by (simp add: bind_def)
  from this assms(3) show ?thesis by (rule bind_keys_frame)
qed

section \<open>The claims\<close>

text \<open>
  C1: for every plain data object, the constructor of \<^verbatim>\<open>SimpleBound\<close> deep-copies it and
  builds, for every key of the snapshot, a child or a two-way Binding stored at
  \<^verbatim>\<open>storage[key]\<close>. The code does not: on the prototype \<^verbatim>\<open>{x: 1}\<close> the constructor throws
  inside \<^verbatim>\<open>super()\<close>, a TypeError with debug off and a BoundError with debug on, and the
  heap it leaves holds only what the base constructor allocated, with an empty
  \<^verbatim>\<open>storage\<close> (address 3).
\<close>

theorem SimpleBound_ctor_example_throws:
  "fst (SimpleBound_ctor fuel \<lparr>debug = False\<rparr> example_heap (Ref 0)) =
     Inl (TypeError ''Cannot read properties of undefined'') \<and>
   fst (SimpleBound_ctor fuel \<lparr>debug = True\<rparr> example_heap (Ref 0)) =
     Inl (BoundError only_objects_message) \<and>
   snd (SimpleBound_ctor fuel cfg example_heap (Ref 0)) = BaseBound_heap example_heap Undefined \<and>
   for_in_keys (snd (SimpleBound_ctor fuel cfg example_heap (Ref 0))) (Ref 3) = []"
  by (simp add: SimpleBound_ctor_throws BaseBound_heap_def example_heap_def for_in_keys_def prop_order_def is_array_index_def
      lookup_def del: SimpleBound_ctor.simps)

text \<open>
  C2: after a write of a new value through a Binding completes, the Binding holds that
  value, its registrations are unchanged, and every registered pair of a target and a
  key observes the value; all of it is done when the write returns.
\<close>

theorem Binding_set_reaches_every_mirror:
  assumes "lookup h b = Some (BindingCell bd)"
    and "Binding_set h b v = (Inr u, h')"
  shows "lookup h' b = Some (BindingCell (bd\<lparr>b_value := v\<rparr>)) \<and>
         Binding_get h' b = Inr v \<and>
         (\<forall>m \<in> set (b_masters bd). get_prop h' (fst m) (snd m) = Inr v)"
proof -
  let ?h1 = "h[b := BindingCell (bd\<lparr>b_value := v\<rparr>)]"
  from assms have p: "propagate ?h1 (b_masters bd) v = (Inr u, h')"
    by (simp add: Binding_set_def)
  from assms(1) have "lookup ?h1 b = Some (BindingCell (bd\<lparr>b_value := v\<rparr>))"
    by (simp add: lookup_def split: if_splits)
  with p have b: "lookup h' b = Some (BindingCell (bd\<lparr>b_value := v\<rparr>))"
    by (rule propagate_binding)
  then have g: "Binding_get h' b = Inr v" by (simp add: Binding_get_def)
  have "get_prop h' (fst m) (snd m) = Inr v" if "m \<in> set (b_masters bd)" for m
    using p that by (cases m) (simp add: propagate_all)
  with b g show ?thesis by blast
qed

text \<open>
  The write of 5 through the Binding of \<open>mirrors_heap\<close> completes; \<^verbatim>\<open>x\<close> of the first
  target and \<^verbatim>\<open>y\<close> of the second show 5, and \<^verbatim>\<open>z\<close> is left alone.
\<close>

theorem Binding_set_reaches_every_mirror_witness:
  "lookup mirrors_heap 2 =
     Some (BindingCell \<lparr>b_twoWay = True, b_value = Num 1,
                        b_masters = [(Ref 0, ''x''), (Ref 1, ''y''), (Ref 0, ''x'')]\<rparr>) \<and>
   Binding_set mirrors_heap 2 (Num 5) =
     (Inr (),
      [ObjCell PlainObject [(''x'', data_prop (Num 5))],
       ObjCell PlainObject [(''y'', data_prop (Num 5)), (''z'', data_prop (Str ''kept''))],
       BindingCell \<lparr>b_twoWay = True, b_value = Num 5,
                     b_masters = [(Ref 0, ''x''), (Ref 1, ''y''), (Ref 0, ''x'')]\<rparr>]) \<and>
   Binding_get (snd (Binding_set mirrors_heap 2 (Num 5))) 2 = Inr (Num 5) \<and>
   get_prop (snd (Binding_set mirrors_heap 2 (Num 5))) (Ref 0) ''x'' = Inr (Num 5) \<and>
   get_prop (snd (Binding_set mirrors_heap 2 (Num 5))) (Ref 1) ''y'' = Inr (Num 5)"
proof -
  let ?bd = "\<lparr>b_twoWay = True, b_value = Num 1,
              b_masters = [(Ref 0, ''x''), (Ref 1, ''y''), (Ref 0, ''x'')]\<rparr>"
  have l: "lookup mirrors_heap 2 = Some (BindingCell ?bd)"
    by (simp add: mirrors_heap_def lookup_def)
  have s: "Binding_set mirrors_heap 2 (Num 5) =
     (Inr (),
      [ObjCell PlainObject [(''x'', data_prop (Num 5))],
       ObjCell PlainObject [(''y'', data_prop (Num 5)), (''z'', data_prop (Str ''kept''))],
       BindingCell \<lparr>b_twoWay = True, b_value = Num 5,
                     b_masters = [(Ref 0, ''x''), (Ref 1, ''y''), (Ref 0, ''x'')]\<rparr>])"
    by (simp add: mirrors_heap_def Binding_set_def lookup_def set_prop_def data_prop_def)
  from Binding_set_reaches_every_mirror [OF l s] l s show ?thesis by simp
qed

text \<open>
  C3: on a constructed instance, once \<^verbatim>\<open>b.bind(t)\<close> has returned, \<^verbatim>\<open>t[k] === b.boundObject[k]\<close>
  for every key \<^verbatim>\<open>k\<close> of \<^verbatim>\<open>storage\<close>, both being the current value of the Binding stored at
  that key; \<^verbatim>\<open>boundObject\<close> is still the same object. The target is any value but the
  instance itself, which the type \<^verbatim>\<open>U extends T\<close> of the parameter excludes. Where \<^verbatim>\<open>bind\<close>
  returns, every key of \<^verbatim>\<open>storage\<close> holds a Binding, so these are the primitive-valued
  keys of the prototype.
\<close>

theorem bind_synchronises_target:
  assumes "in_step h this" "t \<noteq> Ref this"
    and "get_prop h (Ref this) ''storage'' = Inr st"
    and "get_prop h (Ref this) ''boundObject'' = Inr bo"
    and "bind h this t = (Inr u, h')"
  shows "get_prop h' (Ref this) ''boundObject'' = Inr bo \<and>
         (\<forall>k \<in> set (for_in_keys h st).
            \<exists>x v. get_prop h st k = Inr x \<and> binding_value h x = Some v \<and>
                  get_prop h' t k = Inr v \<and> get_prop h' bo k = Inr v)"
proof -
  from assms(1,3,4) have d: "distinct (for_in_keys h st)"
    and inv: "list_all
                 (\<lambda>k. case get_prop h st k of
                        Inl e \<Rightarrow> False
                      | Inr x \<Rightarrow>
                          (case binding_value h x of
                             None \<Rightarrow> True
                           | Some v \<Rightarrow> get_prop h bo k = Inr v))
                 (for_in_keys h st)"
    by (simp_all add: in_step_def)
  from assms(2) have "Ref this \<noteq> t \<or> ''boundObject'' \<notin> set (for_in_keys h st)" by auto
  with assms(5,3) have "get_prop h' (Ref this) ''boundObject'' = get_prop h (Ref this) ''boundObject''"
    by (rule bind_frame)
  with assms(4) have b: "get_prop h' (Ref this) ''boundObject'' = Inr bo" by simp
  have "\<exists>x v. get_prop h st k = Inr x \<and> binding_value h x = Some v \<and>
              get_prop h' t k = Inr v \<and> get_prop h' bo k = Inr v"
    if k: "k \<in> set (for_in_keys h st)" for k
  proof -
    from bind_synchronises [OF assms(5,3) d assms(2) k]
    obtain x v where x: "get_prop h st k = Inr x" and v: "binding_value h x = Some v"
      and tk: "get_prop h' t k = Inr v" by blast
    from inv k x v have bk: "get_prop h bo k = Inr v" by (auto simp: list_all_iff)
    have "get_prop h' bo k = Inr v"
    proof (cases "bo = t")
      case True
      with tk show ?thesis by simp
    next
      case False
      then have "bo \<noteq> t \<or> k \<notin> set (for_in_keys h st)" by simp
      with assms(5,3) have "get_prop h' bo k = get_prop h bo k" by (rule bind_frame)
      with bk show ?thesis by simp
    qed
    with x v tk show ?thesis by blast
  qed
  with b show ?thesis by blast
qed

text \<open>
  On \<open>flat_instance_heap\<close>, \<^verbatim>\<open>bind\<close> returns; the target \<^verbatim>\<open>{n: 7}\<close> then shows \<^verbatim>\<open>x: 1\<close> and
  \<^verbatim>\<open>n: 2\<close>, as the mirror does.
\<close>

theorem bind_synchronises_target_witness:
  "in_step flat_instance_heap 0 \<and> Ref 5 \<noteq> Ref (0::nat) \<and>
   get_prop flat_instance_heap (Ref 0) ''storage'' = Inr (Ref 1) \<and>
   get_prop flat_instance_heap (Ref 0) ''boundObject'' = Inr (Ref 2) \<and>
   fst (bind flat_instance_heap 0 (Ref 5)) = Inr () \<and>
   for_in_keys flat_instance_heap (Ref 1) = [''x'', ''n''] \<and>
   get_prop (snd (bind flat_instance_heap 0 (Ref 5))) (Ref 5) ''x'' = Inr (Num 1) \<and>
   get_prop (snd (bind flat_instance_heap 0 (Ref 5))) (Ref 2) ''x'' = Inr (Num 1) \<and>
   get_prop (snd (bind flat_instance_heap 0 (Ref 5))) (Ref 5) ''n'' = Inr (Num 2) \<and>
   get_prop (snd (bind flat_instance_heap 0 (Ref 5))) (Ref 2) ''n'' = Inr (Num 2)"
proof -
  have s: "get_prop flat_instance_heap (Ref 0) ''storage'' = Inr (Ref 1)"
    and b: "get_prop flat_instance_heap (Ref 0) ''boundObject'' = Inr (Ref 2)"
    by (simp_all add: flat_instance_heap_def get_prop_def lookup_def data_prop_def)
  have ks: "for_in_keys flat_instance_heap (Ref 1) = [''x'', ''n'']"
    by (simp add: flat_instance_heap_def for_in_keys_def prop_order_def is_array_index_def
        lookup_def data_prop_def)
  have i: "in_step flat_instance_heap 0"
    by (simp add: in_step_def flat_instance_heap_def get_prop_def lookup_def data_prop_def
        binding_value_def for_in_keys_def prop_order_def is_array_index_def)
  have r: "fst (bind flat_instance_heap 0 (Ref 5)) = Inr ()"
    by (simp add: bind_def flat_instance_heap_def get_prop_def lookup_def data_prop_def
        for_in_keys_def prop_order_def is_array_index_def
        call_addMasterBinding_def addMasterBinding_def set_prop_def)
  then have e: "bind flat_instance_heap 0 (Ref 5) = (Inr (), snd (bind flat_instance_heap 0 (Ref 5)))"
    by (simp add: prod_eq_iff)
  have v: "binding_value flat_instance_heap (Ref 3) = Some (Num 1)"
    "binding_value flat_instance_heap (Ref 4) = Some (Num 2)"
    "get_prop flat_instance_heap (Ref 1) ''x'' = Inr (Ref 3)"
    "get_prop flat_instance_heap (Ref 1) ''n'' = Inr (Ref 4)"
    by (simp_all add: flat_instance_heap_def get_prop_def lookup_def data_prop_def
        binding_value_def)
  have n: "Ref 5 \<noteq> Ref (0::nat)" by simp
  from bind_synchronises_target [OF i n s b e] ks v
  have "get_prop (snd (bind flat_instance_heap 0 (Ref 5))) (Ref 5) ''x'' = Inr (Num 1) \<and>
        get_prop (snd (bind flat_instance_heap 0 (Ref 5))) (Ref 2) ''x'' = Inr (Num 1) \<and>
        get_prop (snd (bind flat_instance_heap 0 (Ref 5))) (Ref 5) ''n'' = Inr (Num 2) \<and>
        get_prop (snd (bind flat_instance_heap 0 (Ref 5))) (Ref 2) ''n'' = Inr (Num 2)"
    by auto
  with i n s b r ks show ?thesis by simp
qed

text \<open>
  C4: the constructor of \<^verbatim>\<open>BaseBound\<close> raises its two errors only when debug is on. The
  code gates the non-object check and the \<^verbatim>\<open>instanceof\<close> half of the rebind check, but in
  \<^verbatim>\<open>debug && proto instanceof BaseBound || BaseBound.isBound(proto)\<close> the \<^verbatim>\<open>isBound\<close> half
  falls outside the gate: on \<open>example_bound_heap\<close>, with debug off, the number 7 and the
  instance (address 2) are accepted, and the bound object (address 4) is still refused
  with "Cannot rebind a bound object.".
\<close>

theorem rebind_check_ignores_debug:
  "isBound example_bound_heap (Ref 4) = Inr True \<and>
   fst (BaseBound_ctor \<lparr>debug = False\<rparr> example_bound_heap (Ref 4) Undefined) =
     Inl (BoundError rebind_message) \<and>
   fst (BaseBound_ctor \<lparr>debug = True\<rparr> example_bound_heap (Ref 4) Undefined) =
     Inl (BoundError rebind_message) \<and>
   fst (BaseBound_ctor \<lparr>debug = False\<rparr> example_bound_heap (Ref 2) Undefined) = Inr 5 \<and>
   fst (BaseBound_ctor \<lparr>debug = True\<rparr> example_bound_heap (Ref 2) Undefined) =
     Inl (BoundError rebind_message) \<and>
   fst (BaseBound_ctor \<lparr>debug = False\<rparr> example_bound_heap (Num 7) Undefined) = Inr 5 \<and>
   fst (BaseBound_ctor \<lparr>debug = True\<rparr> example_bound_heap (Num 7) Undefined) =
     Inl (BoundError only_objects_message)"
proof -
  have v: "val_in example_bound_heap (Ref 4)" "val_in example_bound_heap (Ref 2)"
    "val_in example_bound_heap (Num 7)"
    by (simp_all add: val_in_def example_bound_heap_eq)
  have e: "isBound example_bound_heap (Ref 4) = Inr True"
    "isBound example_bound_heap (Ref 2) = Inr False"
    "isBound example_bound_heap (Num 7) = Inr False"
    "instanceof_BaseBound example_bound_heap (Ref 2)"
    "\<not> instanceof_BaseBound example_bound_heap (Ref 4)"
    "length example_bound_heap = 5"
    by (simp_all add: example_bound_heap_eq isBound_def get_prop_def lookup_def data_prop_def
        instanceof_BaseBound_def)
  from example_bound_heap_closed v e show ?thesis
    by (simp add: BaseBound_ctor_pre)
qed

text \<open>
  C5: \<^verbatim>\<open>bind\<close> registers the target for the keys of \<^verbatim>\<open>storage\<close> that hold a Binding, skips
  the nested children and completes without error. The code calls \<^verbatim>\<open>addMasterBinding\<close> on
  every stored value: on \<open>nested_instance_heap\<close> it registers \<^verbatim>\<open>a\<close> and then throws a
  TypeError at the nested storage \<^verbatim>\<open>b\<close>.
\<close>

theorem bind_nested_storage_throws:
  "fst (bind nested_instance_heap 0 (Ref 8)) =
     Inl (TypeError ''addMasterBinding is not a function'') \<and>
   get_prop (snd (bind nested_instance_heap 0 (Ref 8))) (Ref 8) ''a'' = Inr (Num 1) \<and>
   get_prop (snd (bind nested_instance_heap 0 (Ref 8))) (Ref 8) ''b'' = Inr Undefined"
  by (simp add: bind_def nested_instance_heap_def get_prop_def lookup_def data_prop_def
      for_in_keys_def prop_order_def is_array_index_def call_addMasterBinding_def addMasterBinding_def set_prop_def)

text \<open>
  C6, as stated, fails: \<^verbatim>\<open>isBound(undefined)\<close> returns no boolean, it throws a TypeError.
\<close>

theorem isBound_undefined_counterexample:
  "isBound [] Undefined = Inl (TypeError ''Cannot read properties of undefined'')"
  by (simp add: isBound_def get_prop_def)

text \<open>
  C6, amended: on \<^verbatim>\<open>undefined\<close> and \<^verbatim>\<open>null\<close>, \<^verbatim>\<open>isBound\<close> throws a TypeError; on every other
  argument it returns a boolean, true iff the argument's \<^verbatim>\<open>__bound__\<close> field is non-falsy
  and an instance of \<^verbatim>\<open>BaseBound\<close>. It is true for the \<^verbatim>\<open>boundObject\<close> of a construction
  that succeeded, false for \<^verbatim>\<open>{}\<close> and false for a plain object whose \<^verbatim>\<open>__bound__\<close> field is
  falsy.
\<close>

theorem isBound_characterisation:
  "(obj = Undefined \<longrightarrow>
      isBound h obj = Inl (TypeError ''Cannot read properties of undefined'')) \<and>
   (obj = Null \<longrightarrow> isBound h obj = Inl (TypeError ''Cannot read properties of null'')) \<and>
   (obj \<noteq> Undefined \<and> obj \<noteq> Null \<longrightarrow>
      (\<exists>v. get_prop h obj ''__bound__'' = Inr v \<and>
            isBound h obj = Inr (truthy v \<and> instanceof_BaseBound h v))) \<and>
   (BaseBound_ctor cfg h proto plugins = (Inr this, h') \<longrightarrow>
      (\<exists>bo. get_prop h' (Ref this) ''boundObject'' = Inr bo \<and> isBound h' bo = Inr True)) \<and>
   isBound (h @ [ObjCell PlainObject []]) (Ref (length h)) = Inr False \<and>
   (\<not> truthy x \<longrightarrow>
      isBound (h @ [ObjCell PlainObject [(''__bound__'', data_prop x)]]) (Ref (length h)) =
        Inr False)"
proof (intro conjI impI)
  assume "obj = Undefined"
  then show "isBound h obj = Inl (TypeError ''Cannot read properties of undefined'')"
    by (simp add: isBound_def get_prop_def)
next
  assume "obj = Null"
  then show "isBound h obj = Inl (TypeError ''Cannot read properties of null'')"
    by (simp add: isBound_def get_prop_def)
next
  assume "obj \<noteq> Undefined \<and> obj \<noteq> Null"
  then show "\<exists>v. get_prop h obj ''__bound__'' = Inr v \<and>
            isBound h obj = Inr (truthy v \<and> instanceof_BaseBound h v)"
    by (cases obj) (auto simp: isBound_def get_prop_def split: option.splits cell.splits)
next
  assume "BaseBound_ctor cfg h proto plugins = (Inr this, h')"
  then show "\<exists>bo. get_prop h' (Ref this) ''boundObject'' = Inr bo \<and> isBound h' bo = Inr True"
    using isBound_boundObject by blast
next
  show "isBound (h @ [ObjCell PlainObject []]) (Ref (length h)) = Inr False"
    by (simp add: isBound_def get_prop_def lookup_def)
next
  assume "\<not> truthy x"
  then show "isBound (h @ [ObjCell PlainObject [(''__bound__'', data_prop x)]]) (Ref (length h)) =
        Inr False"
    by (simp add: isBound_def get_prop_def lookup_def data_prop_def)
qed

text \<open>
  On \<open>example_heap\<close>: \<^verbatim>\<open>undefined\<close> and \<^verbatim>\<open>null\<close> throw; the construction on the prototype at
  address 0 succeeds and its \<^verbatim>\<open>boundObject\<close> (address 4), whose \<^verbatim>\<open>__bound__\<close> is the
  instance, is bound; a plain object with \<^verbatim>\<open>__bound__: 0\<close> is not.
\<close>

theorem isBound_characterisation_witness:
  "isBound example_heap Undefined = Inl (TypeError ''Cannot read properties of undefined'') \<and>
   isBound example_heap Null = Inl (TypeError ''Cannot read properties of null'') \<and>
   get_prop example_bound_heap (Ref 4) ''__bound__'' = Inr (Ref 2) \<and>
   isBound example_bound_heap (Ref 4) = Inr True \<and>
   BaseBound_ctor \<lparr>debug = False\<rparr> example_heap (Ref 0) Undefined = (Inr 2, example_bound_heap) \<and>
   get_prop example_bound_heap (Ref 2) ''boundObject'' = Inr (Ref 4) \<and>
   \<not> truthy (Num 0) \<and>
   isBound (example_heap @ [ObjCell PlainObject [(''__bound__'', data_prop (Num 0))]])
     (Ref (length example_heap)) = Inr False"
proof -
  have c: "BaseBound_ctor \<lparr>debug = False\<rparr> example_heap (Ref 0) Undefined =
      (Inr 2, example_bound_heap)"
    by (rule prod_eqI)
      (simp_all add: example_bound_heap_def BaseBound_ctor_result BaseBound_heap_def
        example_heap_def isBound_def get_prop_def lookup_def data_prop_def)
  have g: "get_prop example_bound_heap (Ref 4) ''__bound__'' = Inr (Ref 2)"
    by (simp add: example_bound_heap_eq get_prop_def lookup_def data_prop_def)
  have b: "get_prop example_bound_heap (Ref 2) ''boundObject'' = Inr (Ref 4)"
    by (simp add: example_bound_heap_eq get_prop_def lookup_def data_prop_def)
  have i: "instanceof_BaseBound example_bound_heap (Ref 2)"
    by (simp add: example_bound_heap_eq instanceof_BaseBound_def lookup_def)
  have u: "isBound example_heap Undefined =
      Inl (TypeError ''Cannot read properties of undefined'')"
    using isBound_characterisation [of Undefined example_heap] by simp
  have n: "isBound example_heap Null = Inl (TypeError ''Cannot read properties of null'')"
    using isBound_characterisation [of Null example_heap] by simp
  have t: "isBound example_bound_heap (Ref 4) = Inr True"
    using isBound_characterisation [of "Ref 4" example_bound_heap] g i by simp
  have f: "isBound (example_heap @ [ObjCell PlainObject [(''__bound__'', data_prop (Num 0))]])
     (Ref (length example_heap)) = Inr False"
    using isBound_characterisation [of _ example_heap _ _ _ _ _ "Num 0"] by simp
  have "\<exists>bo. get_prop example_bound_heap (Ref 2) ''boundObject'' = Inr bo \<and>
      isBound example_bound_heap bo = Inr True"
    using isBound_characterisation
      [of _ example_heap "\<lparr>debug = False\<rparr>" "Ref 0" Undefined 2 example_bound_heap] c
    by simp
  with u n g t c b f show ?thesis by simp
qed

text \<open>
  C7: \<^verbatim>\<open>bindAndMap\<close> throws a BoundError "Method not implemented." for every instance,
  every argument and either value of the debug flag, and changes nothing.
\<close>

theorem bindAndMap_not_implemented:
  "bindAndMap cfg h this obj mapToOriginal two =
     (Inl (BoundError ''Method not implemented.''), h)"
  by (simp add: bindAndMap_def not_implemented_message_def)

text \<open>
  C8: after construction \<^verbatim>\<open>boundObject.__bound__\<close> points to the owning instance, is
  writable and is non-enumerable. The code leaves it enumerable: the field initialiser
  creates \<^verbatim>\<open>__bound__\<close> as an ordinary enumerable property, and the descriptor passed to
  \<^verbatim>\<open>Object.defineProperty\<close> names only \<^verbatim>\<open>value\<close> and \<^verbatim>\<open>writable\<close>, so after every run of the
  constructor a \<^verbatim>\<open>for ... in\<close> over \<^verbatim>\<open>boundObject\<close> visits \<^verbatim>\<open>__bound__\<close>.
\<close>

theorem bound_key_stays_enumerable:
  "get_prop (snd (BaseBound_ctor cfg h proto plugins)) (Ref (length h)) ''boundObject'' =
     Inr (Ref (Suc (Suc (length h)))) \<and>
   lookup (snd (BaseBound_ctor cfg h proto plugins)) (Suc (Suc (length h))) =
     Some (ObjCell PlainObject
       [(''__bound__'', \<lparr>p_value = Ref (length h), p_writable = True, p_enumerable = True,
                          p_configurable = True\<rparr>)]) \<and>
   for_in_keys (snd (BaseBound_ctor cfg h proto plugins)) (Ref (Suc (Suc (length h)))) =
     [''__bound__'']"
  by (simp add: BaseBound_ctor_heap BaseBound_heap_def get_prop_def lookup_def nth_append
      for_in_keys_def prop_order_def is_array_index_def data_prop_def)

text \<open>
  C9: constructing a \<^verbatim>\<open>SimpleBound\<close> from an object of a closed heap leaves every cell
  that existed before as it was, the object itself among them, and \<^verbatim>\<open>isBound\<close> says of
  the object what it said before.
\<close>

theorem SimpleBound_ctor_frame:
  assumes "heap_closed h" "a < length h"
  shows "take (length h) (snd (SimpleBound_ctor fuel cfg h (Ref a))) = h \<and>
         lookup (snd (SimpleBound_ctor fuel cfg h (Ref a))) a = lookup h a \<and>
         isBound (snd (SimpleBound_ctor fuel cfg h (Ref a))) (Ref a) = isBound h (Ref a)"
proof -
  have s: "snd (SimpleBound_ctor fuel cfg h (Ref a)) = BaseBound_heap h Undefined"
    by (simp only: SimpleBound_ctor_throws snd_conv)
  from assms(2) have v: "val_in h (Ref a)" by (simp add: val_in_def)
  show ?thesis
    unfolding s using assms v
    by (simp add: BaseBound_heap_def lookup_append_old isBound_old)
qed

text \<open>The prototype \<^verbatim>\<open>{x: 1}\<close> of \<open>example_heap\<close> is the same object after the constructor.\<close>

theorem SimpleBound_ctor_frame_witness:
  "heap_closed example_heap \<and> 0 < length example_heap \<and>
   take (length example_heap) (snd (SimpleBound_ctor 1 \<lparr>debug = False\<rparr> example_heap (Ref 0))) =
     example_heap \<and>
   lookup (snd (SimpleBound_ctor 1 \<lparr>debug = False\<rparr> example_heap (Ref 0))) 0 =
     Some (ObjCell PlainObject [(''x'', data_prop (Num 1))]) \<and>
   isBound (snd (SimpleBound_ctor 1 \<lparr>debug = False\<rparr> example_heap (Ref 0))) (Ref 0) = Inr False"
proof -
  have l: "0 < length example_heap" by (simp add: example_heap_def)
  have e: "lookup example_heap 0 = Some (ObjCell PlainObject [(''x'', data_prop (Num 1))])"
    "isBound example_heap (Ref 0) = Inr False"
    by (simp_all add: example_heap_def lookup_def isBound_def get_prop_def)
  from SimpleBound_ctor_frame [OF example_heap_closed l, of 1 "\<lparr>debug = False\<rparr>"]
    example_heap_closed l e
  show ?thesis by simp
qed

text \<open>
  C10: for every argument, \<^verbatim>\<open>new SimpleBound(obj)\<close> throws before it builds any storage:
  the \<^verbatim>\<open>BoundError\<close> for a non-object prototype with debug on, a TypeError from reading
  \<^verbatim>\<open>__bound__\<close> of \<^verbatim>\<open>undefined\<close> with debug off. The heap holds what the base constructor
  allocated and nothing else, and the \<^verbatim>\<open>storage\<close> of the instance has no key.
\<close>

theorem SimpleBound_ctor_always_throws:
  "SimpleBound_ctor fuel cfg h obj =
     (Inl (if debug cfg then BoundError only_objects_message
           else TypeError ''Cannot read properties of undefined''),
      BaseBound_heap h Undefined) \<and>
   get_prop (BaseBound_heap h Undefined) (Ref (length h)) ''storage'' =
     Inr (Ref (Suc (length h))) \<and>
   for_in_keys (BaseBound_heap h Undefined) (Ref (Suc (length h))) = []"
  by (simp add: SimpleBound_ctor_throws BaseBound_heap_def get_prop_def for_in_keys_def prop_order_def is_array_index_def
      lookup_def nth_append data_prop_def del: SimpleBound_ctor.simps)

end
